theory Spec2Isabelle
  imports Complex_Main
begin

section \<open>Values\<close>

text \<open>
  A Python or numpy float (a double): the three special values of IEEE 754 and the
  finite values. A finite result of an operation is taken as the exact real number: the
  rounding of a result to the nearest double is not modelled, so the finite numbers of
  the model can differ from the program's in the last digits. What is modelled is what
  decides the shape of the results: \<open>nan\<close> for a missing table entry, \<open>-inf\<close> for
  \<open>np.log10(0)\<close>, the overflow of a result to an infinity, and the \<open>OverflowError\<close> of
  Python's \<open>**\<close>.
\<close>

datatype fl = NaN | MInf | Fin real | PInf

text \<open>The exceptions the two functions can raise.\<close>

datatype error = TypeError | ValueError | KeyError | OverflowError

definition then_do :: "error + 'a \<Rightarrow> ('a \<Rightarrow> error + 'b) \<Rightarrow> error + 'b" where
  "then_do r f = (case r of Inl e \<Rightarrow> Inl e | Inr v \<Rightarrow> f v)"

text \<open>
  The largest double is \<open>2\<^sup>1\<^sup>0\<^sup>2\<^sup>4 - 2\<^sup>9\<^sup>7\<^sup>1\<close>. A result of magnitude \<open>2\<^sup>1\<^sup>0\<^sup>2\<^sup>4 - 2\<^sup>9\<^sup>7\<^sup>0\<close> or
  more, halfway to \<open>2\<^sup>1\<^sup>0\<^sup>2\<^sup>4\<close>, is out of range: \<open>+\<close>, \<open>-\<close> and \<open>*\<close> then give an
  infinity, in Python as in numpy.
\<close>

definition overflow_bound :: real where
  "overflow_bound = 2 ^ 1024 - 2 ^ 970"

definition fin :: "real \<Rightarrow> fl" where
  "fin r = (if overflow_bound \<le> r then PInf else if r \<le> - overflow_bound then MInf else Fin r)"

text \<open>Unary minus, \<open>+\<close>, \<open>-\<close> and \<open>*\<close> on floats.\<close>

fun fneg :: "fl \<Rightarrow> fl" where
  "fneg NaN = NaN"
| "fneg MInf = PInf"
| "fneg (Fin r) = Fin (- r)"
| "fneg PInf = MInf"

fun fadd :: "fl \<Rightarrow> fl \<Rightarrow> fl" where
  "fadd NaN _ = NaN"
| "fadd _ NaN = NaN"
| "fadd (Fin a) (Fin b) = fin (a + b)"
| "fadd PInf MInf = NaN"
| "fadd MInf PInf = NaN"
| "fadd PInf _ = PInf"
| "fadd MInf _ = MInf"
| "fadd (Fin _) PInf = PInf"
| "fadd (Fin _) MInf = MInf"

definition fsub :: "fl \<Rightarrow> fl \<Rightarrow> fl" where
  "fsub a b = fadd a (fneg b)"

text \<open>The sign of a float that is not \<open>nan\<close>: \<open>-1\<close>, \<open>0\<close> or \<open>1\<close>.\<close>

fun fsign :: "fl \<Rightarrow> int" where
  "fsign NaN = 0"
| "fsign MInf = - 1"
| "fsign (Fin r) = (if r < 0 then - 1 else if r = 0 then 0 else 1)"
| "fsign PInf = 1"

fun fmul :: "fl \<Rightarrow> fl \<Rightarrow> fl" where
  "fmul NaN _ = NaN"
| "fmul _ NaN = NaN"
| "fmul (Fin a) (Fin b) = fin (a * b)"
| "fmul a b =
     (if fsign a * fsign b = 0 then NaN
      else if fsign a * fsign b < 0 then MInf else PInf)"

text \<open>
  \<open>x ** 2\<close> on a Python float: a finite base whose square is out of range raises
  \<open>OverflowError\<close>.
\<close>

fun py_square :: "fl \<Rightarrow> error + fl" where
  "py_square NaN = Inr NaN"
| "py_square MInf = Inr PInf"
| "py_square PInf = Inr PInf"
| "py_square (Fin a) = (if overflow_bound \<le> a * a then Inl OverflowError else Inr (Fin (a * a)))"

text \<open>
  \<open>x ** 0.5\<close> on a Python float: a negative finite base gives a complex number, which
  \<open>round\<close> then refuses.
\<close>

datatype pynum = PyFloat fl | PyComplex

fun py_pow_half :: "fl \<Rightarrow> pynum" where
  "py_pow_half NaN = PyFloat NaN"
| "py_pow_half MInf = PyFloat PInf"
| "py_pow_half PInf = PyFloat PInf"
| "py_pow_half (Fin r) = (if r < 0 then PyComplex else PyFloat (Fin (sqrt r)))"

text \<open>
  Rounding to two decimals: the nearest multiple of \<open>0.01\<close>, a tie going to the even
  one. Python's \<open>round(x, 2)\<close> rounds the value of \<open>x\<close> itself. numpy's \<open>round(2)\<close>
  multiplies by \<open>100\<close>, rounds to the nearest integer and divides by \<open>100\<close>; the product
  can be out of range, and the result is then an infinity.
\<close>

definition round_half_even :: "real \<Rightarrow> int" where
  "round_half_even x =
     (let f = \<lfloor>x\<rfloor>; d = x - of_int f
      in if d < 1 / 2 then f
         else if 1 / 2 < d then f + 1
         else if even f then f else f + 1)"

definition round2 :: "real \<Rightarrow> real" where
  "round2 x = of_int (round_half_even (x * 100)) / 100"

fun py_fround2 :: "fl \<Rightarrow> fl" where
  "py_fround2 (Fin r) = Fin (round2 r)"
| "py_fround2 v = v"

fun py_round2 :: "pynum \<Rightarrow> error + fl" where
  "py_round2 (PyFloat v) = Inr (py_fround2 v)"
| "py_round2 PyComplex = Inl TypeError"

fun fround2 :: "fl \<Rightarrow> fl" where
  "fround2 (Fin r) =
     (case fin (r * 100) of
        Fin s \<Rightarrow> Fin (of_int (round_half_even s) / 100)
      | v \<Rightarrow> v)"
| "fround2 v = v"

text \<open>\<open>np.log10\<close>: \<open>-inf\<close> at zero and \<open>nan\<close> below it, each with a warning only.\<close>

fun flog10 :: "fl \<Rightarrow> fl" where
  "flog10 NaN = NaN"
| "flog10 MInf = NaN"
| "flog10 PInf = PInf"
| "flog10 (Fin r) = (if r < 0 then NaN else if r = 0 then MInf else Fin (log 10 r))"

text \<open>The order on floats; every comparison with \<open>nan\<close> is false.\<close>

fun fless :: "fl \<Rightarrow> fl \<Rightarrow> bool" where
  "fless NaN _ = False"
| "fless _ NaN = False"
| "fless (Fin a) (Fin b) = (a < b)"
| "fless MInf MInf = False"
| "fless MInf _ = True"
| "fless PInf _ = False"
| "fless (Fin _) PInf = True"
| "fless (Fin _) MInf = False"

definition fge :: "fl \<Rightarrow> fl \<Rightarrow> bool" where
  "fge a b = (a \<noteq> NaN \<and> b \<noteq> NaN \<and> \<not> fless a b)"

section \<open>Dictionaries\<close>

text \<open>
  A Python dictionary with string keys, in insertion order: storing under a key that is
  present keeps its place, a new key goes to the end.
\<close>

type_synonym 'v dict = "(string \<times> 'v) list"

fun dict_set :: "string \<Rightarrow> 'v \<Rightarrow> 'v dict \<Rightarrow> 'v dict" where
  "dict_set k v [] = [(k, v)]"
| "dict_set k v (p # ps) = (if fst p = k then (k, v) # ps else p # dict_set k v ps)"

section \<open>The tables\<close>

text \<open>
  A row of the point table: the identity fields the program reads. The table also has
  the names of all its columns, in order; the readings under the \<open>WAP\<close> columns are
  never read.
\<close>

record point_row =
  pt_LABEL :: string
  pt_DEVICE :: string
  pt_X :: fl
  pt_Y :: fl

record points_df =
  df_columns :: "string list"
  df_rows :: "point_row list"

text \<open>A row of the access-point table, with its columns \<open>AP\<close>, \<open>x\<close> and \<open>y\<close>.\<close>

record ap_row =
  ap_AP :: string
  ap_x :: fl
  ap_y :: fl

section \<open>get_distances\<close>

definition startswith :: "string \<Rightarrow> string \<Rightarrow> bool" where
  "startswith s p = (take (length p) s = p)"

definition wap_columns_of :: "points_df \<Rightarrow> string list" where
  "wap_columns_of df = filter (\<lambda>col. startswith col ''WAP'') (df_columns df)"

text \<open>The loop that fills \<open>ap_coords\<close>: a later row of the same name overwrites.\<close>

fun ap_coords_loop :: "string list \<Rightarrow> ap_row list \<Rightarrow> (fl \<times> fl) dict \<Rightarrow> (fl \<times> fl) dict" where
  "ap_coords_loop wap_columns [] ap_coords = ap_coords"
| "ap_coords_loop wap_columns (row # rows) ap_coords =
     (if ap_AP row \<in> set wap_columns
      then ap_coords_loop wap_columns rows (dict_set (ap_AP row) (ap_x row, ap_y row) ap_coords)
      else ap_coords_loop wap_columns rows ap_coords)"

text \<open>Line 58; each of the three squares can raise.\<close>

definition point_distance :: "fl \<times> fl \<Rightarrow> fl \<times> fl \<Rightarrow> fl \<Rightarrow> error + pynum" where
  "point_distance point_coords ap H =
     then_do (py_square (fsub (fst point_coords) (fst ap))) (\<lambda>sx.
     then_do (py_square (fsub (snd point_coords) (snd ap))) (\<lambda>sy.
     then_do (py_square H) (\<lambda>sh.
     Inr (py_pow_half (fadd (fadd sx sy) sh)))))"

text \<open>The inner loop over \<open>wap_columns\<close>; \<open>None\<close> is Python's \<open>None\<close>.\<close>

fun row_distances ::
  "(fl \<times> fl) dict \<Rightarrow> fl \<Rightarrow> fl \<times> fl \<Rightarrow> string list \<Rightarrow> fl option dict \<Rightarrow> error + fl option dict" where
  "row_distances ap_coords H point_coords [] distances = Inr distances"
| "row_distances ap_coords H point_coords (wap_name # rest) distances =
     (case map_of ap_coords wap_name of
        Some ap \<Rightarrow>
          (case then_do (point_distance point_coords ap H) py_round2 of
             Inl e \<Rightarrow> Inl e
           | Inr d \<Rightarrow>
               row_distances ap_coords H point_coords rest (dict_set wap_name (Some d) distances))
      | None \<Rightarrow>
          row_distances ap_coords H point_coords rest (dict_set wap_name None distances))"

text \<open>The outer loop over the rows of the point table.\<close>

fun distances_loop ::
  "(fl \<times> fl) dict \<Rightarrow> fl \<Rightarrow> string list \<Rightarrow> point_row list \<Rightarrow> fl option dict list
     \<Rightarrow> error + fl option dict list" where
  "distances_loop ap_coords H wap_columns [] distances_list = Inr distances_list"
| "distances_loop ap_coords H wap_columns (row # rows) distances_list =
     (case row_distances ap_coords H (pt_X row, pt_Y row) wap_columns [] of
        Inl e \<Rightarrow> Inl e
      | Inr distances \<Rightarrow>
          distances_loop ap_coords H wap_columns rows (distances_list @ [distances]))"

definition get_distances :: "points_df \<Rightarrow> ap_row list \<Rightarrow> fl \<Rightarrow> error + fl option dict list" where
  "get_distances df ap_df H =
     (let wap_columns = wap_columns_of df;
          ap_coords = ap_coords_loop wap_columns ap_df []
      in distances_loop ap_coords H wap_columns (df_rows df) [])"

section \<open>Data frames\<close>

text \<open>
  A column of a pandas frame, by its dtype: \<open>float64\<close>, or \<open>object\<close> holding only
  \<open>None\<close>, or \<open>object\<close> holding strings. These are the columns the program can build:
  distances are floats or \<open>None\<close>, labels and devices are strings.
\<close>

datatype column = FloatCol "fl list" | NoneCol nat | StrCol "string list"

fun col_len :: "column \<Rightarrow> nat" where
  "col_len (FloatCol vs) = length vs"
| "col_len (NoneCol n) = n"
| "col_len (StrCol ss) = length ss"

text \<open>A frame: the length of its index and its columns, in order.\<close>

record frame =
  fr_index :: nat
  fr_cols :: "column dict"

datatype cell = CNone | CNum fl | CStr string

fun col_cell :: "column \<Rightarrow> nat \<Rightarrow> cell option" where
  "col_cell (FloatCol vs) i = (if i < length vs then Some (CNum (vs ! i)) else None)"
| "col_cell (NoneCol n) i = (if i < n then Some CNone else None)"
| "col_cell (StrCol ss) i = (if i < length ss then Some (CStr (ss ! i)) else None)"

definition cell_at :: "frame \<Rightarrow> string \<Rightarrow> nat \<Rightarrow> cell option" where
  "cell_at fr k i = (case map_of (fr_cols fr) k of None \<Rightarrow> None | Some c \<Rightarrow> col_cell c i)"

text \<open>
  \<open>pd.DataFrame(distances)\<close> on a list of dictionaries. The index has one entry for each
  dictionary and the columns are the keys in the order in which they first appear; a key
  that a dictionary lacks reads as \<open>nan\<close>. Type inference leaves a column in which every
  entry is \<open>None\<close> at dtype \<open>object\<close>, and makes any other column \<open>float64\<close> with \<open>nan\<close>
  for \<open>None\<close>. The empty list gives a frame with no column and an empty index.
\<close>

fun first_seen :: "string list \<Rightarrow> string list \<Rightarrow> string list" where
  "first_seen [] seen = seen"
| "first_seen (k # ks) seen = first_seen ks (if k \<in> set seen then seen else seen @ [k])"

definition frame_keys :: "'v dict list \<Rightarrow> string list" where
  "frame_keys ds = first_seen (concat (map (map fst) ds)) []"

definition raw_entry :: "fl option dict \<Rightarrow> string \<Rightarrow> fl option" where
  "raw_entry d k = (case map_of d k of None \<Rightarrow> Some NaN | Some v \<Rightarrow> v)"

fun as_float :: "fl option \<Rightarrow> fl" where
  "as_float None = NaN"
| "as_float (Some x) = x"

definition make_column :: "fl option list \<Rightarrow> column" where
  "make_column vs =
     (if vs \<noteq> [] \<and> (\<forall>v \<in> set vs. v = None) then NoneCol (length vs)
      else FloatCol (map as_float vs))"

definition pd_DataFrame :: "fl option dict list \<Rightarrow> frame" where
  "pd_DataFrame ds =
     \<lparr>fr_index = length ds,
      fr_cols = map (\<lambda>k. (k, make_column (map (\<lambda>d. raw_entry d k) ds))) (frame_keys ds)\<rparr>"

text \<open>
  \<open>frame[key] = value\<close> with an array as value, as in lines 107 to 112. A frame whose
  index is empty takes its index from a non-empty value (pandas does so in
  \<open>DataFrame._ensure_valid_index\<close>, before it compares the lengths; the columns of the
  frame, all empty, are filled with missing entries). Otherwise the length of the value
  must be the length of the index, or the assignment raises \<open>ValueError\<close>. An existing
  column keeps its place, a new one goes to the end.
\<close>

fun refill :: "nat \<Rightarrow> column \<Rightarrow> column" where
  "refill n (FloatCol _) = FloatCol (replicate n NaN)"
| "refill n (NoneCol _) = NoneCol n"
| "refill n (StrCol _) = NoneCol n"

definition set_item :: "string \<Rightarrow> column \<Rightarrow> frame \<Rightarrow> error + frame" where
  "set_item key value fr =
     (if fr_index fr = 0 \<and> 0 < col_len value
      then Inr \<lparr>fr_index = col_len value,
                fr_cols = dict_set key value (map (\<lambda>(k, c). (k, refill (col_len value) c)) (fr_cols fr))\<rparr>
      else if col_len value \<noteq> fr_index fr then Inl ValueError
      else Inr (fr\<lparr>fr_cols := dict_set key value (fr_cols fr)\<rparr>))"

text \<open>
  \<open>frame.clip(lower=..., upper=None)\<close> on every column of the frame: an entry is kept
  when it is missing (\<open>nan\<close> or \<open>None\<close>) or at least \<open>lower\<close>, and replaced by \<open>lower\<close>
  otherwise. Comparing a string with a number raises \<open>TypeError\<close>.
\<close>

definition fclip_lower :: "fl \<Rightarrow> fl \<Rightarrow> fl" where
  "fclip_lower lower v = (if v = NaN \<or> fge v lower then v else lower)"

fun clip_column :: "fl \<Rightarrow> column \<Rightarrow> error + column" where
  "clip_column lower (FloatCol vs) = Inr (FloatCol (map (fclip_lower lower) vs))"
| "clip_column lower (NoneCol n) = Inr (NoneCol n)"
| "clip_column lower (StrCol ss) = Inl TypeError"

fun clip_columns :: "fl \<Rightarrow> column dict \<Rightarrow> error + column dict" where
  "clip_columns lower [] = Inr []"
| "clip_columns lower ((k, c) # rest) =
     (case clip_column lower c of
        Inl e \<Rightarrow> Inl e
      | Inr c' \<Rightarrow>
          (case clip_columns lower rest of
             Inl e \<Rightarrow> Inl e
           | Inr rest' \<Rightarrow> Inr ((k, c') # rest')))"

definition clip :: "fl \<Rightarrow> frame \<Rightarrow> error + frame" where
  "clip lower fr =
     (case clip_columns lower (fr_cols fr) of
        Inl e \<Rightarrow> Inl e
      | Inr cols \<Rightarrow> Inr (fr\<lparr>fr_cols := cols\<rparr>))"

section \<open>expected_rssi\<close>

record log_params =
  rho_0 :: fl
  alpha :: fl

text \<open>Line 100 on one entry: \<open>- rho_0 - 10 * alpha * log10(d)\<close>.\<close>

definition path_loss :: "log_params \<Rightarrow> fl \<Rightarrow> fl" where
  "path_loss lp d = fsub (fneg (rho_0 lp)) (fmul (fmul (Fin 10) (alpha lp)) (flog10 d))"

text \<open>
  Lines 100 and 102 on a column. On a column of dtype \<open>object\<close> \<open>np.log10\<close> looks for a
  method \<open>log10\<close> of the entries, finds none and raises \<open>TypeError\<close>.
\<close>

fun convert_column :: "log_params \<Rightarrow> column \<Rightarrow> error + column" where
  "convert_column lp (FloatCol vs) = Inr (FloatCol (map (\<lambda>d. fround2 (path_loss lp d)) vs))"
| "convert_column lp (NoneCol n) = Inl TypeError"
| "convert_column lp (StrCol ss) = Inl TypeError"

text \<open>
  The loop of lines 97 to 102 over the column names; \<open>aps\<close> is \<open>df_ap['AP'].values\<close>.
  Reading a column that the frame lacks would raise \<open>KeyError\<close>; the loop runs over the
  frame's own columns.
\<close>

fun convert_loop :: "string list \<Rightarrow> log_params \<Rightarrow> string list \<Rightarrow> frame \<Rightarrow> error + frame" where
  "convert_loop aps lp [] rssi_df = Inr rssi_df"
| "convert_loop aps lp (wap # rest) rssi_df =
     (if wap \<in> set aps
      then (case map_of (fr_cols rssi_df) wap of
              None \<Rightarrow> Inl KeyError
            | Some c \<Rightarrow>
                (case convert_column lp c of
                   Inl e \<Rightarrow> Inl e
                 | Inr c' \<Rightarrow>
                     convert_loop aps lp rest (rssi_df\<lparr>fr_cols := dict_set wap c' (fr_cols rssi_df)\<rparr>)))
      else convert_loop aps lp rest rssi_df)"

text \<open>
  Lines 106 to 112 read the module-level table \<open>df_test\<close>; it is the first argument
  here and of \<open>expected_rssi\<close>.
\<close>

definition attach_identity :: "points_df \<Rightarrow> frame \<Rightarrow> error + frame" where
  "attach_identity df_test rssi_df =
     then_do (set_item ''LABEL'' (StrCol (map pt_LABEL (df_rows df_test))) rssi_df) (\<lambda>rssi_df.
     then_do (set_item ''DEVICE'' (StrCol (map pt_DEVICE (df_rows df_test))) rssi_df) (\<lambda>rssi_df.
     then_do (set_item ''X'' (FloatCol (map pt_X (df_rows df_test))) rssi_df) (\<lambda>rssi_df.
     set_item ''Y'' (FloatCol (map pt_Y (df_rows df_test))) rssi_df)))"

definition expected_rssi ::
  "points_df \<Rightarrow> fl option dict list \<Rightarrow> ap_row list \<Rightarrow> log_params \<Rightarrow> error + frame" where
  "expected_rssi df_test distances df_ap lp =
     then_do (Inr (pd_DataFrame distances)) (\<lambda>rssi_df.
     then_do (convert_loop (map ap_AP df_ap) lp (map fst (fr_cols rssi_df)) rssi_df) (\<lambda>rssi_df.
     then_do (clip (Fin (- 100)) rssi_df) (\<lambda>rssi_df.
     attach_identity df_test rssi_df)))"

text \<open>The two functions in sequence, as a caller uses them.\<close>

definition fingerprint ::
  "points_df \<Rightarrow> points_df \<Rightarrow> ap_row list \<Rightarrow> fl \<Rightarrow> log_params \<Rightarrow> error + frame" where
  "fingerprint df_test df df_ap H lp =
     then_do (get_distances df df_ap H) (\<lambda>distances. expected_rssi df_test distances df_ap lp)"

section \<open>Closed forms and example data\<close>

text \<open>
  The value that line 59 stores for one point and one access point, whether the
  computation of a cell returns, and the dictionary that the inner loop builds for one
  row when every cell returns; the lemmas below show that the loops compute exactly
  these.
\<close>

definition rounded_distance :: "fl \<times> fl \<Rightarrow> fl \<times> fl \<Rightarrow> fl \<Rightarrow> error + fl" where
  "rounded_distance pc ap H = then_do (point_distance pc ap H) py_round2"

definition cell_ok :: "(fl \<times> fl) dict \<Rightarrow> fl \<Rightarrow> fl \<times> fl \<Rightarrow> string \<Rightarrow> bool" where
  "cell_ok ap_coords H pc wap =
     (case map_of ap_coords wap of
        None \<Rightarrow> True
      | Some ap \<Rightarrow> (case rounded_distance pc ap H of Inl _ \<Rightarrow> False | Inr _ \<Rightarrow> True))"

definition row_entry :: "(fl \<times> fl) dict \<Rightarrow> fl \<Rightarrow> fl \<times> fl \<Rightarrow> string \<Rightarrow> fl option" where
  "row_entry ap_coords H pc wap =
     (case map_of ap_coords wap of
        None \<Rightarrow> None
      | Some ap \<Rightarrow> (case rounded_distance pc ap H of Inl _ \<Rightarrow> None | Inr v \<Rightarrow> Some v))"

definition row_ok :: "(fl \<times> fl) dict \<Rightarrow> fl \<Rightarrow> string list \<Rightarrow> point_row \<Rightarrow> bool" where
  "row_ok ac H ws row = list_all (cell_ok ac H (pt_X row, pt_Y row)) ws"

definition row_dict :: "(fl \<times> fl) dict \<Rightarrow> fl \<Rightarrow> string list \<Rightarrow> point_row \<Rightarrow> fl option dict" where
  "row_dict ac H ws row = fold (\<lambda>w d. dict_set w (row_entry ac H (pt_X row, pt_Y row) w) d) ws []"

text \<open>The names of the four columns that lines 106 to 112 assign.\<close>

definition identity_columns :: "string list" where
  "identity_columns = [''LABEL'', ''DEVICE'', ''X'', ''Y'']"

definition attached :: "points_df \<Rightarrow> column dict \<Rightarrow> column dict" where
  "attached t cols =
     dict_set ''Y'' (FloatCol (map pt_Y (df_rows t)))
       (dict_set ''X'' (FloatCol (map pt_X (df_rows t)))
         (dict_set ''DEVICE'' (StrCol (map pt_DEVICE (df_rows t)))
           (dict_set ''LABEL'' (StrCol (map pt_LABEL (df_rows t))) cols)))"

text \<open>
  Example data: a point table with one point at the origin and two channels, a registry
  that knows the first channel only, and the parameters of the specification's examples.
\<close>

definition ex_points :: points_df where
  "ex_points =
     \<lparr>df_columns = [''LABEL'', ''DEVICE'', ''X'', ''Y'', ''WAP001'', ''WAP002''],
      df_rows = [\<lparr>pt_LABEL = ''hall'', pt_DEVICE = ''phone'', pt_X = Fin 0, pt_Y = Fin 0\<rparr>]\<rparr>"

definition ex_aps :: "ap_row list" where
  "ex_aps = [\<lparr>ap_AP = ''WAP001'', ap_x = Fin 6, ap_y = Fin 8\<rparr>]"

definition ex_params :: log_params where
  "ex_params = \<lparr>rho_0 = Fin 40, alpha = Fin 2\<rparr>"

text \<open>A second point table, with the same shape and other identity fields.\<close>

definition ex_other :: points_df where
  "ex_other =
     \<lparr>df_columns = [''LABEL'', ''DEVICE'', ''X'', ''Y'', ''WAP001'', ''WAP002''],
      df_rows = [\<lparr>pt_LABEL = ''lab'', pt_DEVICE = ''tablet'', pt_X = Fin 6, pt_Y = Fin 9\<rparr>]\<rparr>"

text \<open>A registry with an access point at the origin, where the example point is.\<close>

definition ex_aps_origin :: "ap_row list" where
  "ex_aps_origin = [\<lparr>ap_AP = ''WAP001'', ap_x = Fin 0, ap_y = Fin 0\<rparr>]"

text \<open>A point table with two points.\<close>

definition ex_survey :: points_df where
  "ex_survey =
     \<lparr>df_columns = [''LABEL'', ''DEVICE'', ''X'', ''Y'', ''WAP001'', ''WAP002''],
      df_rows = [\<lparr>pt_LABEL = ''hall'', pt_DEVICE = ''phone'', pt_X = Fin 0, pt_Y = Fin 0\<rparr>,
                 \<lparr>pt_LABEL = ''lab'', pt_DEVICE = ''tablet'', pt_X = Fin 6, pt_Y = Fin 9\<rparr>]\<rparr>"

section \<open>Properties of the two functions\<close>

subsection \<open>Distances\<close>


lemma map_of_dict_set: "map_of (dict_set k v d) = (map_of d)(k \<mapsto> v)"
  by (induction d) (auto simp: fun_eq_iff)

lemma keys_dict_set:
  "map fst (dict_set k v d) = (if k \<in> set (map fst d) then map fst d else map fst d @ [k])"
  by (induction d) auto

lemma overflow_bound_pos: "0 < overflow_bound"
proof -
  have "(2::real) ^ 970 < 2 ^ 1024" by (rule power_strict_increasing) simp_all
  then show ?thesis by (simp add: overflow_bound_def)
qed

lemma overflow_bound_large: "(2::real) ^ 1000 \<le> overflow_bound"
proof -
  have "(2::real) ^ 1024 = 2 ^ 54 * 2 ^ 970" by (simp add: power_add [symmetric])
  then have "overflow_bound = (2 ^ 54 - 1) * 2 ^ 970"
    by (simp add: overflow_bound_def algebra_simps)
  moreover have "(2::real) ^ 30 \<le> 2 ^ 54 - 1" by simp
  then have "(2::real) ^ 30 * 2 ^ 970 \<le> (2 ^ 54 - 1) * 2 ^ 970"
    by (rule mult_right_mono) simp
  moreover have "(2::real) ^ 30 * 2 ^ 970 = 2 ^ 1000" by (simp add: power_add [symmetric])
  ultimately show ?thesis by simp
qed

lemma overflow_bound_gt: "r \<le> 1000000 \<Longrightarrow> (overflow_bound \<le> r) = False"
proof -
  assume r: "r \<le> 1000000"
  have "(1000000::real) < 2 ^ 20" by simp
  also have "(2::real) ^ 20 \<le> 2 ^ 1000" by (rule power_increasing) simp_all
  also note overflow_bound_large
  finally have "1000000 < overflow_bound" .
  with r show ?thesis by simp
qed

lemma fin_small: "\<bar>r\<bar> \<le> 1000000 \<Longrightarrow> fin r = Fin r"
proof -
  assume r: "\<bar>r\<bar> \<le> 1000000"
  have "(1000000::real) < 2 ^ 20" by simp
  also have "(2::real) ^ 20 \<le> 2 ^ 1000" by (rule power_increasing) simp_all
  also note overflow_bound_large
  finally have "1000000 < overflow_bound" .
  with r show ?thesis by (auto simp: fin_def)
qed

lemma py_square_small: "\<bar>a\<bar> \<le> 1000 \<Longrightarrow> py_square (Fin a) = Inr (Fin (a * a))"
proof -
  assume a: "\<bar>a\<bar> \<le> 1000"
  have "a * a = \<bar>a\<bar> * \<bar>a\<bar>" by simp
  also have "\<dots> \<le> 1000 * 1000" using a by (intro mult_mono) simp_all
  finally have "a * a \<le> 1000000" by simp
  moreover have "(1000000::real) < 2 ^ 20" by simp
  moreover have "(2::real) ^ 20 \<le> 2 ^ 1000" by (rule power_increasing) simp_all
  ultimately have "a * a < overflow_bound" using overflow_bound_large by linarith
  then show ?thesis by simp
qed

lemma fin_nonneg:
  "0 \<le> r \<Longrightarrow> fin r \<noteq> MInf \<and> fin r \<noteq> NaN \<and> (\<forall>s. fin r = Fin s \<longrightarrow> 0 \<le> s)"
  using overflow_bound_pos by (auto simp: fin_def)

lemma py_square_cases:
  "py_square a = Inl OverflowError
   \<or> (\<exists>v. py_square a = Inr v \<and> v \<noteq> MInf \<and> (\<forall>r. v = Fin r \<longrightarrow> 0 \<le> r))"
  by (cases a) auto

lemma py_square_Inl: "py_square a = Inl e \<Longrightarrow> e = OverflowError"
  by (cases a) (auto split: if_splits)

lemma fadd_nonneg:
  assumes "a \<noteq> MInf \<and> (\<forall>r. a = Fin r \<longrightarrow> 0 \<le> r)" "b \<noteq> MInf \<and> (\<forall>r. b = Fin r \<longrightarrow> 0 \<le> r)"
  shows "fadd a b \<noteq> MInf \<and> (\<forall>r. fadd a b = Fin r \<longrightarrow> 0 \<le> r)"
proof (cases a)
  case (Fin x)
  show ?thesis
  proof (cases b)
    case (Fin y)
    with \<open>a = Fin x\<close> assms have "0 \<le> x + y" by simp
    from fin_nonneg [OF this] Fin \<open>a = Fin x\<close> show ?thesis by simp
  qed (use Fin assms in auto)
qed (use assms in \<open>cases b; auto\<close>)+

lemma py_pow_half_float:
  assumes "a \<noteq> MInf \<and> (\<forall>r. a = Fin r \<longrightarrow> 0 \<le> r)"
  shows "\<exists>v. py_pow_half a = PyFloat v"
  using assms by (cases a) auto

lemma point_distance_cases:
  "point_distance pc ap H = Inl OverflowError \<or> (\<exists>v. point_distance pc ap H = Inr (PyFloat v))"
proof -
  let ?sx = "py_square (fsub (fst pc) (fst ap))" and ?sy = "py_square (fsub (snd pc) (snd ap))"
    and ?sh = "py_square H"
  show ?thesis
  proof (cases "?sx = Inl OverflowError \<or> ?sy = Inl OverflowError \<or> ?sh = Inl OverflowError")
    case True
    then show ?thesis
      by (auto simp: point_distance_def then_do_def split: sum.splits dest: py_square_Inl)
  next
    case False
    with py_square_cases [of "fsub (fst pc) (fst ap)"] py_square_cases [of "fsub (snd pc) (snd ap)"]
      py_square_cases [of H]
    obtain x y h where x: "?sx = Inr x" "x \<noteq> MInf \<and> (\<forall>r. x = Fin r \<longrightarrow> 0 \<le> r)"
      and y: "?sy = Inr y" "y \<noteq> MInf \<and> (\<forall>r. y = Fin r \<longrightarrow> 0 \<le> r)"
      and h: "?sh = Inr h" "h \<noteq> MInf \<and> (\<forall>r. h = Fin r \<longrightarrow> 0 \<le> r)"
      by blast
    from py_pow_half_float [OF fadd_nonneg [OF fadd_nonneg [OF x(2) y(2)] h(2)]]
    obtain v where "py_pow_half (fadd (fadd x y) h) = PyFloat v" by blast
    with x(1) y(1) h(1) show ?thesis
      by (simp add: point_distance_def then_do_def)
  qed
qed

lemma rounded_distance_cases:
  "rounded_distance pc ap H = Inl OverflowError \<or> (\<exists>v. rounded_distance pc ap H = Inr v)"
  using point_distance_cases [of pc ap H]
  by (auto simp: rounded_distance_def then_do_def)

lemma row_distances_eq:
  "row_distances ac H pc ws acc =
     (if list_all (cell_ok ac H pc) ws
      then Inr (fold (\<lambda>w d. dict_set w (row_entry ac H pc w) d) ws acc)
      else Inl OverflowError)"
proof (induction ws arbitrary: acc)
  case Nil
  then show ?case by simp
next
  case (Cons w ws)
  show ?case
  proof (cases "map_of ac w")
    case None
    then show ?thesis by (simp add: Cons.IH cell_ok_def row_entry_def)
  next
    case (Some ap)
    from rounded_distance_cases [of pc ap H] show ?thesis
    proof
      assume "rounded_distance pc ap H = Inl OverflowError"
      with Some show ?thesis by (simp add: cell_ok_def rounded_distance_def)
    next
      assume "\<exists>v. rounded_distance pc ap H = Inr v"
      then obtain v where v: "rounded_distance pc ap H = Inr v" by blast
      then have "then_do (point_distance pc ap H) py_round2 = Inr v"
        by (simp add: rounded_distance_def)
      with Some v show ?thesis by (simp add: Cons.IH cell_ok_def row_entry_def)
    qed
  qed
qed




lemma distinct_dict_set: "distinct (map fst d) \<Longrightarrow> distinct (map fst (dict_set k v d))"
  by (simp add: keys_dict_set)


lemma distances_loop_eq:
  "distances_loop ac H ws rows acc =
     (if list_all (row_ok ac H ws) rows then Inr (acc @ map (row_dict ac H ws) rows)
      else Inl OverflowError)"
  by (induction rows arbitrary: acc) (auto simp: row_distances_eq row_dict_def row_ok_def)

lemma get_distances_eq:
  "get_distances df ap_df H =
     (if list_all (row_ok (ap_coords_loop (wap_columns_of df) ap_df []) H (wap_columns_of df)) (df_rows df)
      then Inr (map (row_dict (ap_coords_loop (wap_columns_of df) ap_df []) H (wap_columns_of df))
                  (df_rows df))
      else Inl OverflowError)"
  by (simp add: get_distances_def distances_loop_eq Let_def)






subsection \<open>Frames built from dictionaries\<close>

lemma set_first_seen: "set (first_seen ks seen) = set ks \<union> set seen"
  by (induction ks arbitrary: seen) auto

lemma distinct_first_seen: "distinct seen \<Longrightarrow> distinct (first_seen ks seen)"
  by (induction ks arbitrary: seen) auto

lemma set_frame_keys: "set (frame_keys ds) = (\<Union>d \<in> set ds. set (map fst d))"
  by (simp add: frame_keys_def set_first_seen)

lemma distinct_frame_keys: "distinct (frame_keys ds)"
  by (simp add: frame_keys_def distinct_first_seen)

lemma map_of_tabulate:
  "map_of (map (\<lambda>k. (k, f k)) ks) k = (if k \<in> set ks then Some (f k) else None)"
  by (induction ks) auto

lemma index_pd_DataFrame: "fr_index (pd_DataFrame ds) = length ds"
  by (simp add: pd_DataFrame_def)

lemma keys_pd_DataFrame: "map fst (fr_cols (pd_DataFrame ds)) = frame_keys ds"
  by (simp add: pd_DataFrame_def comp_def)

lemma map_of_pd_DataFrame:
  "map_of (fr_cols (pd_DataFrame ds)) k =
     (if k \<in> set (frame_keys ds) then Some (make_column (map (\<lambda>d. raw_entry d k) ds)) else None)"
  by (simp add: pd_DataFrame_def map_of_tabulate)

lemma make_column_cases:
  "make_column vs = NoneCol (length vs) \<and> vs \<noteq> [] \<and> (\<forall>v \<in> set vs. v = None)
   \<or> make_column vs = FloatCol (map as_float vs) \<and> (vs = [] \<or> (\<exists>v \<in> set vs. v \<noteq> None))"
  by (auto simp: make_column_def)

lemma make_column_not_str: "make_column vs \<noteq> StrCol ss"
  by (simp add: make_column_def)

subsection \<open>The conversion loop\<close>

lemma convert_column_Inr:
  "convert_column lp c = Inr c' \<longleftrightarrow>
     (\<exists>vs. c = FloatCol vs \<and> c' = FloatCol (map (\<lambda>d. fround2 (path_loss lp d)) vs))"
  by (cases c) auto

lemma convert_loop_index:
  "convert_loop aps lp ws fr = Inr fr' \<Longrightarrow> fr_index fr' = fr_index fr"
  by (induction ws arbitrary: fr) (auto split: if_splits option.splits sum.splits)

lemma keys_dict_set_present:
  "map_of d k = Some c \<Longrightarrow> map fst (dict_set k v d) = map fst d"
  by (induction d) (auto split: if_splits)

lemma convert_loop_keys:
  "convert_loop aps lp ws fr = Inr fr' \<Longrightarrow> map fst (fr_cols fr') = map fst (fr_cols fr)"
proof (induction ws arbitrary: fr)
  case Nil
  then show ?case by simp
next
  case (Cons wap rest)
  show ?case
  proof (cases "wap \<in> set aps")
    case False
    with Cons show ?thesis by simp
  next
    case True
    with Cons.prems obtain c c' where c: "map_of (fr_cols fr) wap = Some c"
      and c': "convert_column lp c = Inr c'"
      and rec: "convert_loop aps lp rest (fr\<lparr>fr_cols := dict_set wap c' (fr_cols fr)\<rparr>) = Inr fr'"
      by (auto split: option.splits sum.splits)
    from Cons.IH [OF rec] c show ?thesis
      by (simp add: keys_dict_set_present)
  qed
qed

lemma convert_loop_other:
  "convert_loop aps lp ws fr = Inr fr' \<Longrightarrow> k \<notin> set ws \<or> k \<notin> set aps \<Longrightarrow>
     map_of (fr_cols fr') k = map_of (fr_cols fr) k"
proof (induction ws arbitrary: fr)
  case Nil
  then show ?case by simp
next
  case (Cons wap rest)
  show ?case
  proof (cases "wap \<in> set aps")
    case False
    with Cons show ?thesis by auto
  next
    case True
    with Cons.prems obtain c c' where c: "map_of (fr_cols fr) wap = Some c"
      and c': "convert_column lp c = Inr c'"
      and rec: "convert_loop aps lp rest (fr\<lparr>fr_cols := dict_set wap c' (fr_cols fr)\<rparr>) = Inr fr'"
      by (auto split: option.splits sum.splits)
    from Cons.prems(2) True have "k \<noteq> wap" "k \<notin> set rest \<or> k \<notin> set aps" by auto
    with Cons.IH [OF rec] show ?thesis
      by (simp add: map_of_dict_set)
  qed
qed

lemma convert_loop_converted:
  "convert_loop aps lp ws fr = Inr fr' \<Longrightarrow> distinct ws \<Longrightarrow> k \<in> set ws \<Longrightarrow> k \<in> set aps \<Longrightarrow>
     \<exists>vs. map_of (fr_cols fr) k = Some (FloatCol vs)
        \<and> map_of (fr_cols fr') k = Some (FloatCol (map (\<lambda>d. fround2 (path_loss lp d)) vs))"
proof (induction ws arbitrary: fr)
  case Nil
  then show ?case by simp
next
  case (Cons wap rest)
  show ?case
  proof (cases "wap \<in> set aps")
    case False
    with Cons.prems have "convert_loop aps lp rest fr = Inr fr'" "distinct rest" "k \<in> set rest"
      by auto
    then show ?thesis using Cons.IH Cons.prems(4) by blast
  next
    case True
    with Cons.prems obtain c c' where c: "map_of (fr_cols fr) wap = Some c"
      and c': "convert_column lp c = Inr c'"
      and rec: "convert_loop aps lp rest (fr\<lparr>fr_cols := dict_set wap c' (fr_cols fr)\<rparr>) = Inr fr'"
      by (auto split: option.splits sum.splits)
    from c' obtain vs where vs: "c = FloatCol vs"
      "c' = FloatCol (map (\<lambda>d. fround2 (path_loss lp d)) vs)"
      by (auto simp: convert_column_Inr)
    show ?thesis
    proof (cases "k = wap")
      case True
      with Cons.prems(2) have "k \<notin> set rest" by simp
      then have "map_of (fr_cols fr') k = map_of (dict_set wap c' (fr_cols fr)) k"
        using convert_loop_other [OF rec, of k] by simp
      with True c vs show ?thesis by (simp add: map_of_dict_set)
    next
      case False
      with Cons.prems have "distinct rest" "k \<in> set rest" by auto
      from Cons.IH [OF rec this Cons.prems(4)] False show ?thesis
        by (simp add: map_of_dict_set)
    qed
  qed
qed

lemma convert_loop_succeeds:
  "distinct ws \<Longrightarrow>
   (\<forall>k \<in> set ws. k \<in> set aps \<longrightarrow> (\<exists>vs. map_of (fr_cols fr) k = Some (FloatCol vs))) \<Longrightarrow>
   \<exists>fr'. convert_loop aps lp ws fr = Inr fr'"
proof (induction ws arbitrary: fr)
  case Nil
  then show ?case by simp
next
  case (Cons wap rest)
  show ?case
  proof (cases "wap \<in> set aps")
    case False
    with Cons show ?thesis by simp
  next
    case True
    with Cons.prems obtain vs where vs: "map_of (fr_cols fr) wap = Some (FloatCol vs)" by auto
    let ?fr = "fr\<lparr>fr_cols := dict_set wap (FloatCol (map (\<lambda>d. fround2 (path_loss lp d)) vs)) (fr_cols fr)\<rparr>"
    have "\<forall>k \<in> set rest. k \<in> set aps \<longrightarrow> (\<exists>vs. map_of (fr_cols ?fr) k = Some (FloatCol vs))"
      using Cons.prems by (auto simp: map_of_dict_set)
    with Cons.IH [of ?fr] Cons.prems(1) obtain fr' where "convert_loop aps lp rest ?fr = Inr fr'"
      by auto
    with True vs show ?thesis by simp
  qed
qed


subsection \<open>Clipping\<close>

lemma clip_column_Inr:
  "clip_column lower c = Inr c' \<longleftrightarrow>
     (\<exists>vs. c = FloatCol vs \<and> c' = FloatCol (map (fclip_lower lower) vs))
     \<or> (\<exists>n. c = NoneCol n \<and> c' = NoneCol n)"
  by (cases c) auto

lemma clip_columns_keys:
  "clip_columns lower cols = Inr cols' \<Longrightarrow> map fst cols' = map fst cols"
  by (induction cols arbitrary: cols') (auto split: sum.splits)

lemma clip_columns_map_of:
  "clip_columns lower cols = Inr cols' \<Longrightarrow>
     map_of cols' k =
       (case map_of cols k of
          None \<Rightarrow> None
        | Some (FloatCol vs) \<Rightarrow> Some (FloatCol (map (fclip_lower lower) vs))
        | Some c \<Rightarrow> Some c)"
proof (induction cols arbitrary: cols')
  case Nil
  then show ?case by simp
next
  case (Cons p cols)
  obtain k0 c where p: "p = (k0, c)" by (cases p)
  from Cons.prems p obtain c' rest' where c': "clip_column lower c = Inr c'"
    and rest': "clip_columns lower cols = Inr rest'" and cols': "cols' = (k0, c') # rest'"
    by (auto split: sum.splits)
  show ?case
  proof (cases "k = k0")
    case True
    with c' p cols' show ?thesis by (auto simp: clip_column_Inr)
  next
    case False
    with Cons.IH [OF rest'] p cols' show ?thesis by simp
  qed
qed

lemma clip_columns_succeeds:
  "(\<forall>c \<in> snd ` set cols. \<forall>ss. c \<noteq> StrCol ss) \<Longrightarrow> \<exists>cols'. clip_columns lower cols = Inr cols'"
proof (induction cols)
  case Nil
  then show ?case by simp
next
  case (Cons p cols)
  obtain k0 c where p: "p = (k0, c)" by (cases p)
  from Cons.prems p have "\<forall>ss. c \<noteq> StrCol ss" by auto
  then obtain c' where "clip_column lower c = Inr c'" by (cases c) auto
  moreover from Cons obtain rest' where "clip_columns lower cols = Inr rest'" by auto
  ultimately show ?case using p by simp
qed

lemma clip_Inr:
  "clip lower fr = Inr fr' \<longleftrightarrow>
     (\<exists>cols'. clip_columns lower (fr_cols fr) = Inr cols' \<and> fr' = fr\<lparr>fr_cols := cols'\<rparr>)"
  by (auto simp: clip_def split: sum.splits)

subsection \<open>Attaching the identity columns\<close>

lemma attach_identity_eq:
  "attach_identity t fr =
     (if fr_index fr = length (df_rows t) then Inr (fr\<lparr>fr_cols := attached t (fr_cols fr)\<rparr>)
      else if fr_index fr = 0
      then Inr \<lparr>fr_index = length (df_rows t),
                fr_cols = attached t (map (\<lambda>(k, c). (k, refill (length (df_rows t)) c)) (fr_cols fr))\<rparr>
      else Inl ValueError)"
  by (auto simp: attach_identity_def set_item_def then_do_def attached_def)

lemma map_of_attached_other:
  "k \<notin> set identity_columns \<Longrightarrow> map_of (attached t cols) k = map_of cols k"
  by (simp add: attached_def identity_columns_def map_of_dict_set)

lemma map_of_attached_identity:
  "map_of (attached t cols) ''LABEL'' = Some (StrCol (map pt_LABEL (df_rows t)))"
  "map_of (attached t cols) ''DEVICE'' = Some (StrCol (map pt_DEVICE (df_rows t)))"
  "map_of (attached t cols) ''X'' = Some (FloatCol (map pt_X (df_rows t)))"
  "map_of (attached t cols) ''Y'' = Some (FloatCol (map pt_Y (df_rows t)))"
  by (simp_all add: attached_def map_of_dict_set)


subsection \<open>The stages of expected_rssi\<close>

lemma expected_rssi_stages:
  "expected_rssi t ds df_ap lp = Inr out \<longleftrightarrow>
     (\<exists>fr1 fr2. convert_loop (map ap_AP df_ap) lp (frame_keys ds) (pd_DataFrame ds) = Inr fr1
        \<and> clip (Fin (- 100)) fr1 = Inr fr2 \<and> attach_identity t fr2 = Inr out)"
  by (auto simp: expected_rssi_def then_do_def keys_pd_DataFrame split: sum.splits)

lemma clip_index: "clip lower fr = Inr fr' \<Longrightarrow> fr_index fr' = fr_index fr"
  by (auto simp: clip_Inr)

lemma clip_keys: "clip lower fr = Inr fr' \<Longrightarrow> map fst (fr_cols fr') = map fst (fr_cols fr)"
  by (auto simp: clip_Inr clip_columns_keys)

lemma clip_map_of:
  "clip lower fr = Inr fr' \<Longrightarrow>
     map_of (fr_cols fr') k =
       (case map_of (fr_cols fr) k of
          None \<Rightarrow> None
        | Some (FloatCol vs) \<Rightarrow> Some (FloatCol (map (fclip_lower lower) vs))
        | Some c \<Rightarrow> Some c)"
  by (auto simp: clip_Inr clip_columns_map_of)

lemma expected_rssi_length:
  assumes "expected_rssi t ds df_ap lp = Inr out"
  shows "length ds = length (df_rows t) \<or> ds = []"
    and "fr_index out = length (df_rows t)"
proof -
  from assms obtain fr1 fr2 where
    1: "convert_loop (map ap_AP df_ap) lp (frame_keys ds) (pd_DataFrame ds) = Inr fr1"
    and 2: "clip (Fin (- 100)) fr1 = Inr fr2" and 3: "attach_identity t fr2 = Inr out"
    by (auto simp: expected_rssi_stages)
  have idx: "fr_index fr2 = length ds"
    using convert_loop_index [OF 1] clip_index [OF 2] by (simp add: index_pd_DataFrame)
  from 3 idx show "length ds = length (df_rows t) \<or> ds = []"
    by (auto simp: attach_identity_eq split: if_splits)
  from 3 idx show "fr_index out = length (df_rows t)"
    by (auto simp: attach_identity_eq split: if_splits)
qed

lemma expected_rssi_identity:
  assumes "expected_rssi t ds df_ap lp = Inr out"
  shows "map_of (fr_cols out) ''LABEL'' = Some (StrCol (map pt_LABEL (df_rows t)))"
    and "map_of (fr_cols out) ''DEVICE'' = Some (StrCol (map pt_DEVICE (df_rows t)))"
    and "map_of (fr_cols out) ''X'' = Some (FloatCol (map pt_X (df_rows t)))"
    and "map_of (fr_cols out) ''Y'' = Some (FloatCol (map pt_Y (df_rows t)))"
proof -
  from assms obtain fr2 where "attach_identity t fr2 = Inr out"
    by (auto simp: expected_rssi_stages)
  then obtain cols where out: "fr_cols out = attached t cols"
    by (auto simp: attach_identity_eq split: if_splits)
  show "map_of (fr_cols out) ''LABEL'' = Some (StrCol (map pt_LABEL (df_rows t)))"
    and "map_of (fr_cols out) ''DEVICE'' = Some (StrCol (map pt_DEVICE (df_rows t)))"
    and "map_of (fr_cols out) ''X'' = Some (FloatCol (map pt_X (df_rows t)))"
    and "map_of (fr_cols out) ''Y'' = Some (FloatCol (map pt_Y (df_rows t)))"
    by (simp_all only: out map_of_attached_identity)
qed

lemma convert_loop_frame:
  assumes "convert_loop (map ap_AP df_ap) lp (frame_keys ds) (pd_DataFrame ds) = Inr fr1"
  shows "map_of (fr_cols fr1) k =
     (if k \<notin> set (frame_keys ds) then None
      else if k \<in> set (map ap_AP df_ap)
      then Some (FloatCol (map (\<lambda>d. fround2 (path_loss lp (as_float (raw_entry d k)))) ds))
      else Some (make_column (map (\<lambda>d. raw_entry d k) ds)))"
proof (cases "k \<in> set (frame_keys ds) \<and> k \<in> set (map ap_AP df_ap)")
  case True
  from convert_loop_converted [OF assms distinct_frame_keys] True
  obtain vs where vs: "map_of (fr_cols (pd_DataFrame ds)) k = Some (FloatCol vs)"
    and r: "map_of (fr_cols fr1) k = Some (FloatCol (map (\<lambda>d. fround2 (path_loss lp d)) vs))"
    by blast
  from vs True have "make_column (map (\<lambda>d. raw_entry d k) ds) = FloatCol vs"
    by (simp add: map_of_pd_DataFrame)
  then have "vs = map as_float (map (\<lambda>d. raw_entry d k) ds)"
    using make_column_cases [of "map (\<lambda>d. raw_entry d k) ds"] by auto
  with r True show ?thesis by (simp add: comp_def)
next
  case False
  then have "map_of (fr_cols fr1) k = map_of (fr_cols (pd_DataFrame ds)) k"
    using convert_loop_other [OF assms, of k] by auto
  with False show ?thesis by (auto simp: map_of_pd_DataFrame)
qed

lemma expected_rssi_column:
  assumes "expected_rssi t ds df_ap lp = Inr out" and "k \<notin> set identity_columns"
  shows "map_of (fr_cols out) k =
     (if k \<notin> set (frame_keys ds) then None
      else if k \<in> set (map ap_AP df_ap)
      then Some (FloatCol (map (\<lambda>d. fclip_lower (Fin (- 100)) (fround2 (path_loss lp (as_float (raw_entry d k))))) ds))
      else if \<forall>d \<in> set ds. raw_entry d k = None then Some (NoneCol (length ds))
      else Some (FloatCol (map (\<lambda>d. fclip_lower (Fin (- 100)) (as_float (raw_entry d k))) ds)))"
    (is "_ = ?rhs")
proof -
  from assms obtain fr1 fr2 where
    1: "convert_loop (map ap_AP df_ap) lp (frame_keys ds) (pd_DataFrame ds) = Inr fr1"
    and 2: "clip (Fin (- 100)) fr1 = Inr fr2" and 3: "attach_identity t fr2 = Inr out"
    by (auto simp: expected_rssi_stages)
  have idx: "fr_index fr2 = length ds"
    using convert_loop_index [OF 1] clip_index [OF 2] by (simp add: index_pd_DataFrame)
  have keys: "map fst (fr_cols fr2) = frame_keys ds"
    using convert_loop_keys [OF 1] clip_keys [OF 2] by (simp add: keys_pd_DataFrame)
  have out: "map_of (fr_cols out) k = map_of (fr_cols fr2) k"
  proof (cases "fr_index fr2 = length (df_rows t)")
    case True
    with 3 assms(2) show ?thesis
      by (auto simp: attach_identity_eq map_of_attached_other)
  next
    case False
    with 3 idx have "ds = []" by (auto simp: attach_identity_eq split: if_splits)
    with keys have "fr_cols fr2 = []" by (simp add: frame_keys_def)
    with 3 False assms(2) show ?thesis
      by (auto simp: attach_identity_eq map_of_attached_other split: if_splits)
  qed
  have nonempty: "ds \<noteq> []" if "k \<in> set (frame_keys ds)"
    using that by (auto simp: set_frame_keys)
  have "map_of (fr_cols fr2) k = ?rhs"
    using nonempty
    by (auto simp: clip_map_of [OF 2] convert_loop_frame [OF 1] make_column_def comp_def)
  with out show ?thesis by simp
qed

lemma expected_rssi_reaches_attach:
  assumes cols: "\<forall>k \<in> set (frame_keys ds). k \<in> set (map ap_AP df_ap) \<longrightarrow> (\<exists>d \<in> set ds. raw_entry d k \<noteq> None)"
  shows "\<exists>fr2. fr_index fr2 = length ds \<and> expected_rssi t ds df_ap lp = attach_identity t fr2"
proof -
  have "\<forall>k \<in> set (frame_keys ds). k \<in> set (map ap_AP df_ap) \<longrightarrow>
          (\<exists>vs. map_of (fr_cols (pd_DataFrame ds)) k = Some (FloatCol vs))"
    using cols by (auto simp: map_of_pd_DataFrame make_column_def)
  from convert_loop_succeeds [OF distinct_frame_keys this]
  obtain fr1 where 1: "convert_loop (map ap_AP df_ap) lp (frame_keys ds) (pd_DataFrame ds) = Inr fr1"
    by blast
  have dist1: "distinct (map fst (fr_cols fr1))"
    using convert_loop_keys [OF 1] by (simp add: keys_pd_DataFrame distinct_frame_keys)
  have "\<forall>c \<in> snd ` set (fr_cols fr1). \<forall>ss. c \<noteq> StrCol ss"
  proof (intro ballI allI)
    fix c ss assume "c \<in> snd ` set (fr_cols fr1)"
    then obtain k where "(k, c) \<in> set (fr_cols fr1)" by auto
    with dist1 have kc: "map_of (fr_cols fr1) k = Some c" by simp
    show "c \<noteq> StrCol ss"
    proof (cases "k \<in> set (frame_keys ds) \<and> k \<in> set (map ap_AP df_ap)")
      case True
      from convert_loop_converted [OF 1 distinct_frame_keys] True kc show ?thesis by fastforce
    next
      case False
      then have "map_of (fr_cols fr1) k = map_of (fr_cols (pd_DataFrame ds)) k"
        using convert_loop_other [OF 1, of k] by auto
      with kc show ?thesis
        by (auto simp: map_of_pd_DataFrame make_column_not_str split: if_splits)
    qed
  qed
  from clip_columns_succeeds [OF this, of "Fin (- 100)"]
  obtain cols' where "clip_columns (Fin (- 100)) (fr_cols fr1) = Inr cols'" by blast
  then have "clip (Fin (- 100)) fr1 = Inr (fr1\<lparr>fr_cols := cols'\<rparr>)"
    by (simp add: clip_def)
  then obtain fr2 where 2: "clip (Fin (- 100)) fr1 = Inr fr2" by blast
  have idx: "fr_index fr2 = length ds"
    using convert_loop_index [OF 1] clip_index [OF 2] by (simp add: index_pd_DataFrame)
  have "expected_rssi t ds df_ap lp = attach_identity t fr2"
    using 1 2 by (simp add: expected_rssi_def then_do_def keys_pd_DataFrame)
  with idx show ?thesis by blast
qed


lemma expected_rssi_mismatch:
  assumes len: "length ds \<noteq> length (df_rows t)" "ds \<noteq> []"
    and cols: "\<forall>k \<in> set (frame_keys ds). k \<in> set (map ap_AP df_ap) \<longrightarrow> (\<exists>d \<in> set ds. raw_entry d k \<noteq> None)"
  shows "expected_rssi t ds df_ap lp = Inl ValueError"
proof -
  from expected_rssi_reaches_attach [OF cols] obtain fr2 where
    "fr_index fr2 = length ds" "expected_rssi t ds df_ap lp = attach_identity t fr2" by blast
  with len show ?thesis by (auto simp: attach_identity_eq)
qed


lemma fingerprint_Inr:
  "fingerprint t df df_ap H lp = Inr out \<longleftrightarrow>
     (\<exists>ds. get_distances df df_ap H = Inr ds \<and> expected_rssi t ds df_ap lp = Inr out)"
  by (auto simp: fingerprint_def then_do_def split: sum.splits)

subsection \<open>The two functions in sequence\<close>


















subsection \<open>Cells\<close>

lemma key_in_frame_keys:
  "i < length ds \<Longrightarrow> map_of (ds ! i) k = Some v \<Longrightarrow> k \<in> set (frame_keys ds)"
proof -
  assume i: "i < length ds" and v: "map_of (ds ! i) k = Some v"
  from v have "(k, v) \<in> set (ds ! i)" by (rule map_of_SomeD)
  then have "k \<in> fst ` set (ds ! i)" by force
  with i show ?thesis by (auto simp: set_frame_keys)
qed


lemma fclip_lower_eq:
  "fclip_lower (Fin l) v = (if fless v (Fin l) then Fin l else v)"
  by (cases v) (auto simp: fclip_lower_def fge_def)




subsection \<open>The errors of expected_rssi\<close>

lemma convert_loop_TypeError:
  assumes "\<forall>w \<in> set ws. \<exists>c. map_of (fr_cols fr) w = Some c"
    and "k \<in> set ws" and "k \<in> set aps"
    and "map_of (fr_cols fr) k = Some c" and "\<forall>vs. c \<noteq> FloatCol vs"
  shows "convert_loop aps lp ws fr = Inl TypeError"
  using assms
proof (induction ws arbitrary: fr)
  case Nil
  then show ?case by simp
next
  case (Cons wap rest)
  show ?case
  proof (cases "wap \<in> set aps")
    case False
    with Cons.prems have "k \<in> set rest" by auto
    with Cons.IH [of fr] Cons.prems False show ?thesis by simp
  next
    case True
    from Cons.prems(1) obtain c0 where c0: "map_of (fr_cols fr) wap = Some c0" by auto
    show ?thesis
    proof (cases "\<exists>vs. c0 = FloatCol vs")
      case False
      then have "convert_column lp c0 = Inl TypeError" by (cases c0) auto
      with True c0 show ?thesis by simp
    next
      case True
      then obtain vs where vs: "c0 = FloatCol vs" by blast
      with c0 Cons.prems(4,5) have neq: "k \<noteq> wap" by auto
      with Cons.prems(2) have krest: "k \<in> set rest" by simp
      let ?fr = "fr\<lparr>fr_cols := dict_set wap (FloatCol (map (\<lambda>d. fround2 (path_loss lp d)) vs)) (fr_cols fr)\<rparr>"
      have "\<forall>w \<in> set rest. \<exists>c. map_of (fr_cols ?fr) w = Some c"
        using Cons.prems(1) by (auto simp: map_of_dict_set)
      moreover have "map_of (fr_cols ?fr) k = Some c"
        using neq Cons.prems(4) by (simp add: map_of_dict_set)
      ultimately have "convert_loop aps lp rest ?fr = Inl TypeError"
        using Cons.IH [of ?fr] krest Cons.prems(3,5) by blast
      with \<open>wap \<in> set aps\<close> c0 vs show ?thesis by simp
    qed
  qed
qed

lemma expected_rssi_TypeError:
  assumes "k \<in> set (frame_keys ds)" and "k \<in> set (map ap_AP df_ap)"
    and "\<forall>d \<in> set ds. raw_entry d k = None"
  shows "expected_rssi t ds df_ap lp = Inl TypeError"
proof -
  from assms(1) have ne: "ds \<noteq> []" by (auto simp: set_frame_keys)
  with assms(3) have col: "map_of (fr_cols (pd_DataFrame ds)) k = Some (NoneCol (length ds))"
    using assms(1) by (simp add: map_of_pd_DataFrame make_column_def)
  have all: "\<forall>w \<in> set (frame_keys ds). \<exists>c. map_of (fr_cols (pd_DataFrame ds)) w = Some c"
    by (simp add: map_of_pd_DataFrame)
  have "convert_loop (map ap_AP df_ap) lp (frame_keys ds) (pd_DataFrame ds) = Inl TypeError"
    by (rule convert_loop_TypeError [OF all assms(1,2) col]) simp
  then show ?thesis
    by (simp add: expected_rssi_def then_do_def keys_pd_DataFrame)
qed

lemma expected_rssi_result:
  "expected_rssi t ds df_ap lp =
     (if \<exists>k \<in> set (frame_keys ds). k \<in> set (map ap_AP df_ap) \<and> (\<forall>d \<in> set ds. raw_entry d k = None)
      then Inl TypeError
      else if length ds = length (df_rows t) \<or> ds = []
      then expected_rssi t ds df_ap lp
      else Inl ValueError)"
proof (cases "\<exists>k \<in> set (frame_keys ds). k \<in> set (map ap_AP df_ap) \<and> (\<forall>d \<in> set ds. raw_entry d k = None)")
  case True
  then show ?thesis using expected_rssi_TypeError [of _ ds df_ap t lp] by auto
next
  case False
  then have cols: "\<forall>k \<in> set (frame_keys ds). k \<in> set (map ap_AP df_ap) \<longrightarrow> (\<exists>d \<in> set ds. raw_entry d k \<noteq> None)"
    by blast
  show ?thesis
  proof (cases "length ds = length (df_rows t) \<or> ds = []")
    case True
    with False show ?thesis by (simp only: if_False if_True)
  next
    case no: False
    then have "expected_rssi t ds df_ap lp = Inl ValueError"
      using expected_rssi_mismatch [OF _ _ cols, of t lp] by simp
    with False no show ?thesis by (simp only: if_False)
  qed
qed


section \<open>Evaluation on concrete inputs\<close>

text \<open>The definitions that a concrete evaluation unfolds, and the logarithms it needs.\<close>

lemmas eval_simps = expected_rssi_def then_do_def pd_DataFrame_def frame_keys_def make_column_def
  raw_entry_def set_item_def clip_def path_loss_def fsub_def fclip_lower_def fge_def round2_def
  round_half_even_def get_distances_def wap_columns_of_def startswith_def point_distance_def
  fin_small py_square_small overflow_bound_gt fingerprint_def cell_at_def attach_identity_def
  ex_points_def ex_aps_def ex_params_def ex_other_def ex_aps_origin_def ex_survey_def



section \<open>The claims\<close>











text \<open>
  C7 (as amended). In \<open>expected_rssi\<close>, a key that the registry does not recognize and
  that is none of \<open>LABEL\<close>, \<open>DEVICE\<close>, \<open>X\<close>, \<open>Y\<close> is never converted to RSSI. In
  every row its value passes to the returned table unchanged, except that a value below
  \<open>-100\<close> is replaced by \<open>-100\<close>: the clip of line 104 applies to the whole table. An
  entry \<open>None\<close> stays undefined (\<open>None\<close> or \<open>nan\<close>).
\<close>

theorem C7_unrecognized_columns:
  assumes "expected_rssi df_test ds df_ap lp = Inr out"
    and "k \<notin> set (map ap_AP df_ap)"
    and "k \<notin> set identity_columns"
    and "i < length ds"
    and "map_of (ds ! i) k = Some v"
  shows "case v of
           Some x \<Rightarrow> cell_at out k i = Some (CNum (if fless x (Fin (- 100)) then Fin (- 100) else x))
         | None \<Rightarrow> cell_at out k i = Some CNone \<or> cell_at out k i = Some (CNum NaN)"
proof -
  have key: "k \<in> set (frame_keys ds)"
    using assms(4,5) by (rule key_in_frame_keys)
  have raw: "raw_entry (ds ! i) k = v"
    using assms(5) by (simp add: raw_entry_def)
  have mem: "ds ! i \<in> set ds"
    using assms(4) by simp
  note col = expected_rssi_column [OF assms(1,3)]
  show ?thesis
  proof (cases v)
    case None
    show ?thesis
    proof (cases "\<forall>d \<in> set ds. raw_entry d k = None")
      case True
      with col key assms(2,4) have "cell_at out k i = Some CNone"
        by (simp add: cell_at_def)
      with None show ?thesis by simp
    next
      case False
      with col key assms(2,4) raw None have "cell_at out k i = Some (CNum NaN)"
        by (simp add: cell_at_def fclip_lower_eq)
      with None show ?thesis by simp
    qed
  next
    case (Some x)
    with raw mem have "\<not> (\<forall>d \<in> set ds. raw_entry d k = None)"
      by force
    with col key assms(2,4) raw Some
    have "cell_at out k i = Some (CNum (if fless x (Fin (- 100)) then Fin (- 100) else x))"
      by (simp add: cell_at_def fclip_lower_eq)
    with Some show ?thesis by simp
  qed
qed

text \<open>
  The statement at a mapping with an unrecognized key of value \<open>21\<close>.
\<close>

theorem C7_unrecognized_columns_witness:
  "expected_rssi ex_points [[(''WAP001'', Some (Fin 10)), (''TEMP'', Some (Fin 21))]] ex_aps ex_params
     = Inr \<lparr>fr_index = 1,
            fr_cols = [(''WAP001'', FloatCol [Fin (- 60)]), (''TEMP'', FloatCol [Fin 21]),
                       (''LABEL'', StrCol [''hall'']), (''DEVICE'', StrCol [''phone'']),
                       (''X'', FloatCol [Fin 0]), (''Y'', FloatCol [Fin 0])]\<rparr>
   \<and> ''TEMP'' \<notin> set (map ap_AP ex_aps)
   \<and> ''TEMP'' \<notin> set identity_columns
   \<and> (0::nat) < length [[(''WAP001'', Some (Fin 10)), (''TEMP'', Some (Fin 21))]]
   \<and> map_of ([[(''WAP001'', Some (Fin 10)), (''TEMP'', Some (Fin 21))]] ! 0) ''TEMP'' = Some (Some (Fin 21))
   \<and> cell_at \<lparr>fr_index = 1,
            fr_cols = [(''WAP001'', FloatCol [Fin (- 60)]), (''TEMP'', FloatCol [Fin 21]),
                       (''LABEL'', StrCol [''hall'']), (''DEVICE'', StrCol [''phone'']),
                       (''X'', FloatCol [Fin 0]), (''Y'', FloatCol [Fin 0])]\<rparr> ''TEMP'' 0
       = Some (CNum (if fless (Fin 21) (Fin (- 100)) then Fin (- 100) else Fin 21))"
proof -
  let ?ds = "[[(''WAP001'', Some (Fin 10)), (''TEMP'', Some (Fin 21))]]"
  let ?out = "\<lparr>fr_index = 1,
            fr_cols = [(''WAP001'', FloatCol [Fin (- 60)]), (''TEMP'', FloatCol [Fin 21]),
                       (''LABEL'', StrCol [''hall'']), (''DEVICE'', StrCol [''phone'']),
                       (''X'', FloatCol [Fin 0]), (''Y'', FloatCol [Fin 0])]\<rparr>"
  have run: "expected_rssi ex_points ?ds ex_aps ex_params = Inr ?out"
    by (simp add: eval_simps)
  have h2: "''TEMP'' \<notin> set (map ap_AP ex_aps)" by (simp add: ex_aps_def)
  have h3: "''TEMP'' \<notin> set identity_columns" by (simp add: identity_columns_def)
  have h4: "(0::nat) < length ?ds" by simp
  have h5: "map_of (?ds ! 0) ''TEMP'' = Some (Some (Fin 21))" by simp
  from C7_unrecognized_columns [OF run h2 h3 h4 h5]
  have c: "cell_at ?out ''TEMP'' 0 = Some (CNum (if fless (Fin 21) (Fin (- 100)) then Fin (- 100) else Fin 21))"
    by (simp only: option.case)
  from run h2 h3 h4 h5 c show ?thesis by blast
qed

text \<open>
  C7 as stated fails: the value \<open>-150\<close> under an unrecognized key comes out as \<open>-100\<close>.
\<close>

theorem C7_counterexample:
  "expected_rssi ex_points [[(''WAP001'', Some (Fin 10)), (''TEMP'', Some (Fin (- 150)))]] ex_aps ex_params
     = Inr \<lparr>fr_index = 1,
            fr_cols = [(''WAP001'', FloatCol [Fin (- 60)]), (''TEMP'', FloatCol [Fin (- 100)]),
                       (''LABEL'', StrCol [''hall'']), (''DEVICE'', StrCol [''phone'']),
                       (''X'', FloatCol [Fin 0]), (''Y'', FloatCol [Fin 0])]\<rparr>
   \<and> ''TEMP'' \<notin> set (map ap_AP ex_aps)"
  by (simp add: eval_simps)

text \<open>
  C8 (as amended). An empty point table is a valid input of \<open>get_distances\<close>, which
  returns the empty list. \<open>expected_rssi\<close> on an empty list of distance mappings raises
  no error either; its result has no RSSI column and holds exactly the four identity
  columns of the module-level table \<open>df_test\<close>, with one row for each row of that
  table. So the result is empty only when \<open>df_test\<close> is empty.
\<close>

theorem C8_empty_input:
  "get_distances \<lparr>df_columns = cols, df_rows = []\<rparr> ap_df H = Inr []
   \<and> expected_rssi df_test [] df_ap lp =
       Inr \<lparr>fr_index = length (df_rows df_test),
            fr_cols = [(''LABEL'', StrCol (map pt_LABEL (df_rows df_test))),
                       (''DEVICE'', StrCol (map pt_DEVICE (df_rows df_test))),
                       (''X'', FloatCol (map pt_X (df_rows df_test))),
                       (''Y'', FloatCol (map pt_Y (df_rows df_test)))]\<rparr>"
proof
  show "get_distances \<lparr>df_columns = cols, df_rows = []\<rparr> ap_df H = Inr []"
    by (simp add: get_distances_eq)
next
  have "pd_DataFrame [] = \<lparr>fr_index = 0, fr_cols = []\<rparr>"
    by (simp add: pd_DataFrame_def frame_keys_def)
  then have "expected_rssi df_test [] df_ap lp = attach_identity df_test \<lparr>fr_index = 0, fr_cols = []\<rparr>"
    by (simp add: expected_rssi_def then_do_def clip_def)
  then show "expected_rssi df_test [] df_ap lp =
       Inr \<lparr>fr_index = length (df_rows df_test),
            fr_cols = [(''LABEL'', StrCol (map pt_LABEL (df_rows df_test))),
                       (''DEVICE'', StrCol (map pt_DEVICE (df_rows df_test))),
                       (''X'', FloatCol (map pt_X (df_rows df_test))),
                       (''Y'', FloatCol (map pt_Y (df_rows df_test)))]\<rparr>"
    by (simp add: attach_identity_eq attached_def)
qed

text \<open>
  The amended statement at the example data.
\<close>

theorem C8_empty_input_witness:
  "get_distances \<lparr>df_columns = [''X'', ''Y'', ''WAP001''], df_rows = []\<rparr> ex_aps (Fin 2) = Inr []
   \<and> expected_rssi ex_other [] ex_aps ex_params =
       Inr \<lparr>fr_index = 1,
            fr_cols = [(''LABEL'', StrCol [''lab'']), (''DEVICE'', StrCol [''tablet'']),
                       (''X'', FloatCol [Fin 6]), (''Y'', FloatCol [Fin 9])]\<rparr>"
  using C8_empty_input [of "[''X'', ''Y'', ''WAP001'']" ex_aps "Fin 2" ex_other ex_aps ex_params]
  by (simp add: ex_other_def)

text \<open>
  C8 as stated fails: with one row in \<open>df_test\<close>, the empty list of mappings gives a
  result with one row, not an empty one.
\<close>

theorem C8_counterexample:
  "expected_rssi ex_points [] ex_aps ex_params =
     Inr \<lparr>fr_index = 1,
          fr_cols = [(''LABEL'', StrCol [''hall'']), (''DEVICE'', StrCol [''phone'']),
                     (''X'', FloatCol [Fin 0]), (''Y'', FloatCol [Fin 0])]\<rparr>"
  by (simp add: eval_simps)

text \<open>
  C10 (as amended). \<open>expected_rssi\<close> reads the identity fields from the module-level
  table \<open>df_test\<close>, not from its arguments. A call succeeds only if the number of
  distance mappings equals the row count of \<open>df_test\<close> or the list of mappings is
  empty; then the result has the rows of \<open>df_test\<close> and its \<open>LABEL\<close>, \<open>DEVICE\<close>,
  \<open>X\<close> and \<open>Y\<close> columns are those of \<open>df_test\<close>. A non-empty list of another length
  makes the call raise: the column assignment raises the length mismatch
  (\<open>ValueError\<close>), unless a recognized column holds only \<open>None\<close>, in which case
  \<open>np.log10\<close> raises \<open>TypeError\<close> at line 100, before the assignment. The identity values
  are those of \<open>df_test\<close> whatever table the distances were computed from.
\<close>

theorem C10_identity_from_global_table:
  "(expected_rssi df_test ds df_ap lp = Inr out \<longrightarrow>
      (length ds = length (df_rows df_test) \<or> ds = [])
      \<and> fr_index out = length (df_rows df_test)
      \<and> map_of (fr_cols out) ''LABEL'' = Some (StrCol (map pt_LABEL (df_rows df_test)))
      \<and> map_of (fr_cols out) ''DEVICE'' = Some (StrCol (map pt_DEVICE (df_rows df_test)))
      \<and> map_of (fr_cols out) ''X'' = Some (FloatCol (map pt_X (df_rows df_test)))
      \<and> map_of (fr_cols out) ''Y'' = Some (FloatCol (map pt_Y (df_rows df_test))))
   \<and> (ds \<noteq> [] \<and> length ds \<noteq> length (df_rows df_test) \<longrightarrow>
        expected_rssi df_test ds df_ap lp =
          (if \<exists>k \<in> set (frame_keys ds). k \<in> set (map ap_AP df_ap) \<and> (\<forall>d \<in> set ds. raw_entry d k = None)
           then Inl TypeError else Inl ValueError))
   \<and> (fingerprint df_test df df_ap H lp = Inr out \<longrightarrow>
        map_of (fr_cols out) ''LABEL'' = Some (StrCol (map pt_LABEL (df_rows df_test)))
        \<and> map_of (fr_cols out) ''DEVICE'' = Some (StrCol (map pt_DEVICE (df_rows df_test)))
        \<and> map_of (fr_cols out) ''X'' = Some (FloatCol (map pt_X (df_rows df_test)))
        \<and> map_of (fr_cols out) ''Y'' = Some (FloatCol (map pt_Y (df_rows df_test))))"
proof (intro conjI impI)
  assume ok: "expected_rssi df_test ds df_ap lp = Inr out"
  show "length ds = length (df_rows df_test) \<or> ds = []"
    by (rule expected_rssi_length(1) [OF ok])
  show "fr_index out = length (df_rows df_test)"
    by (rule expected_rssi_length(2) [OF ok])
  show "map_of (fr_cols out) ''LABEL'' = Some (StrCol (map pt_LABEL (df_rows df_test)))"
    by (rule expected_rssi_identity(1) [OF ok])
  show "map_of (fr_cols out) ''DEVICE'' = Some (StrCol (map pt_DEVICE (df_rows df_test)))"
    by (rule expected_rssi_identity(2) [OF ok])
  show "map_of (fr_cols out) ''X'' = Some (FloatCol (map pt_X (df_rows df_test)))"
    by (rule expected_rssi_identity(3) [OF ok])
  show "map_of (fr_cols out) ''Y'' = Some (FloatCol (map pt_Y (df_rows df_test)))"
    by (rule expected_rssi_identity(4) [OF ok])
next
  assume bad: "ds \<noteq> [] \<and> length ds \<noteq> length (df_rows df_test)"
  show "expected_rssi df_test ds df_ap lp =
          (if \<exists>k \<in> set (frame_keys ds). k \<in> set (map ap_AP df_ap) \<and> (\<forall>d \<in> set ds. raw_entry d k = None)
           then Inl TypeError else Inl ValueError)"
  proof (cases "\<exists>k \<in> set (frame_keys ds). k \<in> set (map ap_AP df_ap) \<and> (\<forall>d \<in> set ds. raw_entry d k = None)")
    case True
    then obtain k where "k \<in> set (frame_keys ds)" "k \<in> set (map ap_AP df_ap)"
      "\<forall>d \<in> set ds. raw_entry d k = None"
      by blast
    then have "expected_rssi df_test ds df_ap lp = Inl TypeError"
      by (rule expected_rssi_TypeError)
    with True show ?thesis by (simp only: if_True)
  next
    case False
    then have cols: "\<forall>k \<in> set (frame_keys ds). k \<in> set (map ap_AP df_ap) \<longrightarrow>
                       (\<exists>d \<in> set ds. raw_entry d k \<noteq> None)"
      by blast
    from bad have "length ds \<noteq> length (df_rows df_test)" "ds \<noteq> []" by simp_all
    from expected_rssi_mismatch [OF this cols]
    have "expected_rssi df_test ds df_ap lp = Inl ValueError" .
    with False show ?thesis by (simp only: if_False)
  qed
next
  assume "fingerprint df_test df df_ap H lp = Inr out"
  then obtain ds' where ok: "expected_rssi df_test ds' df_ap lp = Inr out"
    by (auto simp: fingerprint_Inr)
  show "map_of (fr_cols out) ''LABEL'' = Some (StrCol (map pt_LABEL (df_rows df_test)))"
    by (rule expected_rssi_identity(1) [OF ok])
  show "map_of (fr_cols out) ''DEVICE'' = Some (StrCol (map pt_DEVICE (df_rows df_test)))"
    by (rule expected_rssi_identity(2) [OF ok])
  show "map_of (fr_cols out) ''X'' = Some (FloatCol (map pt_X (df_rows df_test)))"
    by (rule expected_rssi_identity(3) [OF ok])
  show "map_of (fr_cols out) ''Y'' = Some (FloatCol (map pt_Y (df_rows df_test)))"
    by (rule expected_rssi_identity(4) [OF ok])
qed

text \<open>
  The amended statement at the example data: one mapping against the one-row table
  succeeds; two mappings raise the length mismatch, and \<open>TypeError\<close> when the recognized
  column holds only \<open>None\<close>; distances computed from another table still get the labels
  of \<open>df_test\<close>.
\<close>

theorem C10_identity_from_global_table_witness:
  "expected_rssi ex_points [[(''WAP001'', Some (Fin 10))]] ex_aps ex_params =
     Inr \<lparr>fr_index = 1,
          fr_cols = [(''WAP001'', FloatCol [Fin (- 60)]), (''LABEL'', StrCol [''hall'']),
                     (''DEVICE'', StrCol [''phone'']), (''X'', FloatCol [Fin 0]),
                     (''Y'', FloatCol [Fin 0])]\<rparr>
   \<and> length [[(''WAP001'', Some (Fin 10))]] = length (df_rows ex_points)
   \<and> [[(''WAP001'', Some (Fin 10))], [(''WAP001'', Some (Fin 20))]] \<noteq> []
   \<and> length [[(''WAP001'', Some (Fin 10))], [(''WAP001'', Some (Fin 20))]] \<noteq> length (df_rows ex_points)
   \<and> expected_rssi ex_points [[(''WAP001'', Some (Fin 10))], [(''WAP001'', Some (Fin 20))]]
         ex_aps ex_params = Inl ValueError
   \<and> expected_rssi ex_points [[(''WAP001'', None)], [(''WAP001'', None)]]
         ex_aps ex_params = Inl TypeError
   \<and> fingerprint ex_points ex_other ex_aps (Fin 0) ex_params =
       Inr \<lparr>fr_index = 1,
            fr_cols = [(''WAP001'', FloatCol [Fin (- 40)]), (''WAP002'', NoneCol 1),
                       (''LABEL'', StrCol [''hall'']), (''DEVICE'', StrCol [''phone'']),
                       (''X'', FloatCol [Fin 0]), (''Y'', FloatCol [Fin 0])]\<rparr>
   \<and> map pt_LABEL (df_rows ex_points) = [''hall'']
   \<and> map pt_LABEL (df_rows ex_other) = [''lab'']"
proof -
  let ?ds1 = "[[(''WAP001'', Some (Fin 10))]]"
  let ?ds2 = "[[(''WAP001'', Some (Fin 10))], [(''WAP001'', Some (Fin 20))]]"
  let ?ds3 = "[[(''WAP001'', None)], [(''WAP001'', None :: fl option)]]"
  let ?out = "\<lparr>fr_index = 1,
          fr_cols = [(''WAP001'', FloatCol [Fin (- 60)]), (''LABEL'', StrCol [''hall'']),
                     (''DEVICE'', StrCol [''phone'']), (''X'', FloatCol [Fin 0]),
                     (''Y'', FloatCol [Fin 0])]\<rparr>"
  have ok: "expected_rssi ex_points ?ds1 ex_aps ex_params = Inr ?out"
    by (simp add: eval_simps)
  have "expected_rssi ex_points ?ds1 ex_aps ex_params = Inr ?out \<longrightarrow>
      (length ?ds1 = length (df_rows ex_points) \<or> ?ds1 = [])
      \<and> fr_index ?out = length (df_rows ex_points)
      \<and> map_of (fr_cols ?out) ''LABEL'' = Some (StrCol (map pt_LABEL (df_rows ex_points)))
      \<and> map_of (fr_cols ?out) ''DEVICE'' = Some (StrCol (map pt_DEVICE (df_rows ex_points)))
      \<and> map_of (fr_cols ?out) ''X'' = Some (FloatCol (map pt_X (df_rows ex_points)))
      \<and> map_of (fr_cols ?out) ''Y'' = Some (FloatCol (map pt_Y (df_rows ex_points)))"
    using C10_identity_from_global_table [of ex_points ?ds1 ex_aps ex_params ?out]
    by (rule conjunct1)
  from this ok have "length ?ds1 = length (df_rows ex_points) \<or> ?ds1 = []"
    by blast
  then have len: "length ?ds1 = length (df_rows ex_points)" by simp
  have bad: "?ds2 \<noteq> [] \<and> length ?ds2 \<noteq> length (df_rows ex_points)"
    by (simp add: ex_points_def)
  have cols: "\<not> (\<exists>k \<in> set (frame_keys ?ds2). k \<in> set (map ap_AP ex_aps)
                \<and> (\<forall>d \<in> set ?ds2. raw_entry d k = None))"
    by (simp add: frame_keys_def raw_entry_def)
  have "?ds2 \<noteq> [] \<and> length ?ds2 \<noteq> length (df_rows ex_points) \<longrightarrow>
        expected_rssi ex_points ?ds2 ex_aps ex_params =
          (if \<exists>k \<in> set (frame_keys ?ds2). k \<in> set (map ap_AP ex_aps) \<and> (\<forall>d \<in> set ?ds2. raw_entry d k = None)
           then Inl TypeError else Inl ValueError)"
    using C10_identity_from_global_table [of ex_points ?ds2 ex_aps ex_params]
    by blast
  with bad have "expected_rssi ex_points ?ds2 ex_aps ex_params =
          (if \<exists>k \<in> set (frame_keys ?ds2). k \<in> set (map ap_AP ex_aps) \<and> (\<forall>d \<in> set ?ds2. raw_entry d k = None)
           then Inl TypeError else Inl ValueError)"
    by blast
  with cols have err: "expected_rssi ex_points ?ds2 ex_aps ex_params = Inl ValueError"
    by (simp only: if_False)
  have bad3: "?ds3 \<noteq> [] \<and> length ?ds3 \<noteq> length (df_rows ex_points)"
    by (simp add: ex_points_def)
  have cols3: "\<exists>k \<in> set (frame_keys ?ds3). k \<in> set (map ap_AP ex_aps)
                \<and> (\<forall>d \<in> set ?ds3. raw_entry d k = None)"
    by (simp add: frame_keys_def raw_entry_def ex_aps_def)
  have "?ds3 \<noteq> [] \<and> length ?ds3 \<noteq> length (df_rows ex_points) \<longrightarrow>
        expected_rssi ex_points ?ds3 ex_aps ex_params =
          (if \<exists>k \<in> set (frame_keys ?ds3). k \<in> set (map ap_AP ex_aps) \<and> (\<forall>d \<in> set ?ds3. raw_entry d k = None)
           then Inl TypeError else Inl ValueError)"
    using C10_identity_from_global_table [of ex_points ?ds3 ex_aps ex_params]
    by blast
  with bad3 have "expected_rssi ex_points ?ds3 ex_aps ex_params =
          (if \<exists>k \<in> set (frame_keys ?ds3). k \<in> set (map ap_AP ex_aps) \<and> (\<forall>d \<in> set ?ds3. raw_entry d k = None)
           then Inl TypeError else Inl ValueError)"
    by blast
  with cols3 have err3: "expected_rssi ex_points ?ds3 ex_aps ex_params = Inl TypeError"
    by (simp only: if_True)
  let ?out2 = "\<lparr>fr_index = 1,
            fr_cols = [(''WAP001'', FloatCol [Fin (- 40)]), (''WAP002'', NoneCol 1),
                       (''LABEL'', StrCol [''hall'']), (''DEVICE'', StrCol [''phone'']),
                       (''X'', FloatCol [Fin 0]), (''Y'', FloatCol [Fin 0])]\<rparr>"
  have fp: "fingerprint ex_points ex_other ex_aps (Fin 0) ex_params = Inr ?out2"
    by (simp add: eval_simps)
  have "fingerprint ex_points ex_other ex_aps (Fin 0) ex_params = Inr ?out2 \<longrightarrow>
        map_of (fr_cols ?out2) ''LABEL'' = Some (StrCol (map pt_LABEL (df_rows ex_points)))
        \<and> map_of (fr_cols ?out2) ''DEVICE'' = Some (StrCol (map pt_DEVICE (df_rows ex_points)))
        \<and> map_of (fr_cols ?out2) ''X'' = Some (FloatCol (map pt_X (df_rows ex_points)))
        \<and> map_of (fr_cols ?out2) ''Y'' = Some (FloatCol (map pt_Y (df_rows ex_points)))"
    using C10_identity_from_global_table [of ex_points "[]" ex_aps ex_params ?out2 ex_other "Fin 0"]
    by blast
  with fp have "map_of (fr_cols ?out2) ''LABEL'' = Some (StrCol (map pt_LABEL (df_rows ex_points)))"
    by blast
  then have lab: "map pt_LABEL (df_rows ex_points) = [''hall'']" by simp
  have lab2: "map pt_LABEL (df_rows ex_other) = [''lab'']" by (simp add: ex_other_def)
  from ok len bad err err3 fp lab lab2 show ?thesis by blast
qed

text \<open>
  C10 as stated fails: with no mapping and two rows in \<open>df_test\<close> the counts differ
  and the call succeeds.
\<close>

theorem C10_counterexample:
  "expected_rssi ex_survey [] ex_aps ex_params =
     Inr \<lparr>fr_index = 2,
          fr_cols = [(''LABEL'', StrCol [''hall'', ''lab'']), (''DEVICE'', StrCol [''phone'', ''tablet'']),
                     (''X'', FloatCol [Fin 0, Fin 6]), (''Y'', FloatCol [Fin 0, Fin 9])]\<rparr>
   \<and> length ([] :: fl option dict list) \<noteq> length (df_rows ex_survey)"
  by (simp add: eval_simps)

end
